theory Spec2Isabelle
  imports Complex_Main
begin

section \<open>Data model\<close>

text \<open>
  The shape factory of the OpenCascade binding (\<^verbatim>\<open>ShapeFactory\<close>, with the helpers
  \<^verbatim>\<open>ensureOccShape\<close> and \<^verbatim>\<open>convertShapeResult\<close>) and the orientation text converter
  (\<^verbatim>\<open>QuaternionConverter\<close>) are embedded below.

  Conventions of the embedding:
  \<^item> a JavaScript number that is a coordinate, a length or an angle is a \<^typ>\<open>real\<close>:
    finite values, with exact arithmetic in place of IEEE rounding;
  \<^item> a thrown \<^verbatim>\<open>Error\<close> is the left summand of \<open>fault + 'a\<close>;
  \<^item> the native kernel is a parameter \<open>wasm\<close>; every call that reaches it is appended to
    a log of calls, which is the state threaded through the factory operations;
  \<^item> strings are lists of 8-bit characters.
\<close>

datatype fault = Error string

subsection \<open>Result\<close>

text \<open>
  Modelled from the spec: the class \<^verbatim>\<open>Result\<close> of chili-core is not among the sources
  (only its test is). The spec describes it as a tagged union with exactly two variants,
  \<^verbatim>\<open>Ok(value)\<close> and \<^verbatim>\<open>Err(error)\<close>, queried through \<^verbatim>\<open>isOk\<close>; the value is readable only
  on \<^verbatim>\<open>Ok\<close> and the error only on \<^verbatim>\<open>Err\<close> (reading the other field is a usage fault,
  \<open>None\<close> here).
\<close>

datatype ('t, 'e) Result = Ok 't | Err 'e

definition Result_ok :: "'t \<Rightarrow> ('t, 'e) Result" where
  "Result_ok v = Ok v"

definition Result_err :: "'e \<Rightarrow> ('t, 'e) Result" where
  "Result_err e = Err e"

fun Result_isOk :: "('t, 'e) Result \<Rightarrow> bool" where
  "Result_isOk (Ok v) = True"
| "Result_isOk (Err e) = False"

fun Result_value :: "('t, 'e) Result \<Rightarrow> 't option" where
  "Result_value (Ok v) = Some v"
| "Result_value (Err e) = None"

fun Result_error :: "('t, 'e) Result \<Rightarrow> 'e option" where
  "Result_error (Ok v) = None"
| "Result_error (Err e) = Some e"

text \<open>
  The values stored by \<^verbatim>\<open>result.test.ts\<close>: a string, a boolean and \<^verbatim>\<open>undefined\<close>.
\<close>

datatype js_primitive = js_undefined | js_boolean bool | js_string string

subsection \<open>Shapes and native handles\<close>

text \<open>
  A \<^verbatim>\<open>TopoDS_Shape\<close> is an opaque native handle. An \<^verbatim>\<open>IShape\<close> is either this binding's
  wrapper \<^verbatim>\<open>OccShape\<close>, whose field \<^verbatim>\<open>shape\<close> is the handle, or an implementation of the
  interface that is not an instance of \<^verbatim>\<open>OccShape\<close>.
\<close>

datatype TopoDS_Shape = TopoDS_Shape nat

datatype IShape = OccShape (OccShape_shape: TopoDS_Shape) | ForeignShape nat

fun instanceof_OccShape :: "IShape \<Rightarrow> bool" where
  "instanceof_OccShape (OccShape h) = True"
| "instanceof_OccShape (ForeignShape n) = False"

record XYZ =
  XYZ_x :: real
  XYZ_y :: real
  XYZ_z :: real

text \<open>
  The outcome of a native call, as \<^verbatim>\<open>convertShapeResult\<close> reads it: the fields
  \<^verbatim>\<open>isOk\<close>, \<^verbatim>\<open>shape\<close> and \<^verbatim>\<open>error\<close>. The type of \<^verbatim>\<open>error\<close> is declared in the wasm
  library's typings, which are not among the sources: it is the type parameter \<open>'err\<close>.
\<close>

record 'err ShapeResult =
  isOk :: bool
  shape :: TopoDS_Shape
  error :: 'err

section \<open>Helpers of the factory\<close>

text \<open>
  Modelled from the spec: \<^verbatim>\<open>OcctHelper.wrapShape\<close> (module \<^verbatim>\<open>./helper\<close>) is not among the
  sources. The spec: on success the native handle is wrapped via the shape ownership
  wrapper, which exclusively owns that handle.
\<close>

definition wrapShape :: "TopoDS_Shape \<Rightarrow> IShape" where
  "wrapShape h = OccShape h"

text \<open>
  \<^verbatim>\<open>convertShapeResult\<close>. The JavaScript conversion \<^verbatim>\<open>String(result.error)\<close> is the
  parameter \<open>String\<close>, since the type of the error is a parameter.
\<close>

definition convertShapeResult ::
  "('err \<Rightarrow> string) \<Rightarrow> 'err ShapeResult \<Rightarrow> (IShape, string) Result" where
  "convertShapeResult String result =
     (if \<not> isOk result then Result_err (String (error result))
      else Result_ok (wrapShape (shape result)))"

text \<open>
  \<^verbatim>\<open>ensureOccShape\<close> takes one shape or an array of shapes
  (\<^verbatim>\<open>IShape | IShape[]\<close>, told apart by \<^verbatim>\<open>Array.isArray\<close>). The callback of
  \<^verbatim>\<open>shapes.map\<close> throws at the first element that is not an \<^verbatim>\<open>OccShape\<close>.
\<close>

datatype IShape_or_array = Single IShape | Array "IShape list"

fun map_shape_or_throw :: "IShape list \<Rightarrow> fault + TopoDS_Shape list" where
  "map_shape_or_throw [] = Inr []"
| "map_shape_or_throw (x # xs) =
     (if \<not> instanceof_OccShape x
      then Inl (Error ''The OCC kernel only supports OCC geometries.'')
      else (case map_shape_or_throw xs of
              Inl f \<Rightarrow> Inl f
            | Inr hs \<Rightarrow> Inr (OccShape_shape x # hs)))"

fun ensureOccShape :: "IShape_or_array \<Rightarrow> fault + TopoDS_Shape list" where
  "ensureOccShape (Array shapes) = map_shape_or_throw shapes"
| "ensureOccShape (Single shapes) =
     (if instanceof_OccShape shapes then Inr [OccShape_shape shapes]
      else Inl (Error ''The OCC kernel only supports OCC geometries.''))"

text \<open>
  The index expression \<^verbatim>\<open>ensureOccShape(shape)[0]\<close>: the first element, or
  \<^verbatim>\<open>undefined\<close> (\<open>None\<close>) on an empty array.
\<close>

fun index0 :: "'a list \<Rightarrow> 'a option" where
  "index0 [] = None"
| "index0 (h # hs) = Some h"

text \<open>
  Modelled from the spec: \<^verbatim>\<open>MathUtils.degToRad\<close> belongs to chili-core and is not among
  the sources. The spec: a degree input \<open>d\<close> becomes \<open>d * \<pi> / 180\<close> radians.
\<close>

definition degToRad :: "real \<Rightarrow> real" where
  "degToRad degrees = degrees * pi / 180"

text \<open>
  Modelled from the spec: \<^verbatim>\<open>MathUtils.allEqualZero\<close> belongs to chili-core and is not
  among the sources. The spec: values are compared with zero against a fixed epsilon, a
  zero vector being one with all three components within epsilon of zero. The bound is
  strict: by the spec, \<^verbatim>\<open>line\<close> rejects a distance below epsilon and proceeds at a
  distance of epsilon or more, so a component of absolute value epsilon is not within
  epsilon of zero. The spec does not give the value of epsilon, which is the parameter
  \<open>epsilon\<close>.
\<close>

definition allEqualZero :: "real \<Rightarrow> real \<Rightarrow> real \<Rightarrow> real \<Rightarrow> bool" where
  "allEqualZero epsilon a b c = (\<bar>a\<bar> < epsilon \<and> \<bar>b\<bar> < epsilon \<and> \<bar>c\<bar> < epsilon)"

text \<open>
  Modelled from the spec: \<^verbatim>\<open>XYZ.length\<close> belongs to chili-core and is not among the
  sources. The spec speaks of the length of the extrusion vector: its Euclidean length.
\<close>

definition XYZ_length :: "XYZ \<Rightarrow> real" where
  "XYZ_length v = sqrt (XYZ_x v * XYZ_x v + XYZ_y v * XYZ_y v + XYZ_z v * XYZ_z v)"


section \<open>The native kernel\<close>

text \<open>
  One constructor per function of \<^verbatim>\<open>wasm.ShapeFactory\<close> that the factory calls, with the
  arguments the factory passes. The types of the kernel's coordinate frame (the result of
  \<^verbatim>\<open>OcctHelper.toAx3\<close>) and of \<^verbatim>\<open>Ray\<close> are parameters.
\<close>

datatype ('ax3, 'ray) kernel_call =
    wasm_face "TopoDS_Shape list"
  | wasm_bezier "XYZ list" "real list"
  | wasm_point XYZ
  | wasm_line XYZ XYZ
  | wasm_arc XYZ XYZ XYZ real
  | wasm_circle XYZ XYZ real
  | wasm_rect 'ax3 real real
  | wasm_polygon "XYZ list"
  | wasm_box 'ax3 real real real
  | wasm_wire "TopoDS_Shape list"
  | wasm_prism "TopoDS_Shape option" XYZ
  | wasm_booleanFuse "TopoDS_Shape list" "TopoDS_Shape list"
  | wasm_sweep "TopoDS_Shape option" "TopoDS_Shape option"
  | wasm_revolve "TopoDS_Shape option" 'ray real
  | wasm_booleanCommon "TopoDS_Shape list" "TopoDS_Shape list"
  | wasm_booleanCut "TopoDS_Shape list" "TopoDS_Shape list"
  | wasm_combine "TopoDS_Shape list"
  | wasm_makeThickSolidBySimple "TopoDS_Shape option" real
  | wasm_makeThickSolidByJoin "TopoDS_Shape option" "TopoDS_Shape list" real

text \<open>
  The kernel answers a call with a \<^verbatim>\<open>ShapeResult\<close>; its answer may depend on the calls
  made before. The state of a factory operation is the log of the calls made so far.
\<close>

type_synonym ('err, 'ax3, 'ray) kernel =
  "('ax3, 'ray) kernel_call list \<Rightarrow> ('ax3, 'ray) kernel_call \<Rightarrow> 'err ShapeResult"

type_synonym ('ax3, 'ray) outcome =
  "(fault + (IShape, string) Result) \<times> ('ax3, 'ray) kernel_call list"

text \<open>
  \<^verbatim>\<open>convertShapeResult(wasm.ShapeFactory.f(...))\<close>: the call is logged and its outcome
  normalized.
\<close>

definition convert_call ::
  "('err \<Rightarrow> string) \<Rightarrow> ('err, 'ax3, 'ray) kernel \<Rightarrow> ('ax3, 'ray) kernel_call
   \<Rightarrow> ('ax3, 'ray) kernel_call list \<Rightarrow> ('ax3, 'ray) outcome" where
  "convert_call String wasm c calls = (Inr (convertShapeResult String (wasm calls c)), calls @ [c])"

section \<open>ShapeFactory\<close>

definition face ::
  "('err \<Rightarrow> string) \<Rightarrow> ('err, 'ax3, 'ray) kernel \<Rightarrow> IShape list
   \<Rightarrow> ('ax3, 'ray) kernel_call list \<Rightarrow> ('ax3, 'ray) outcome" where
  "face String wasm wire calls =
     (case ensureOccShape (Array wire) of
        Inl f \<Rightarrow> (Inl f, calls)
      | Inr shapes \<Rightarrow> convert_call String wasm (wasm_face shapes) calls)"

definition bezier ::
  "('err \<Rightarrow> string) \<Rightarrow> ('err, 'ax3, 'ray) kernel \<Rightarrow> XYZ list \<Rightarrow> real list option
   \<Rightarrow> ('ax3, 'ray) kernel_call list \<Rightarrow> ('ax3, 'ray) outcome" where
  "bezier String wasm points weights calls =
     convert_call String wasm
       (wasm_bezier points (case weights of None \<Rightarrow> [] | Some ws \<Rightarrow> ws)) calls"

definition point ::
  "('err \<Rightarrow> string) \<Rightarrow> ('err, 'ax3, 'ray) kernel \<Rightarrow> XYZ
   \<Rightarrow> ('ax3, 'ray) kernel_call list \<Rightarrow> ('ax3, 'ray) outcome" where
  "point String wasm p calls = convert_call String wasm (wasm_point p) calls"


definition arc ::
  "('err \<Rightarrow> string) \<Rightarrow> ('err, 'ax3, 'ray) kernel \<Rightarrow> XYZ \<Rightarrow> XYZ \<Rightarrow> XYZ \<Rightarrow> real
   \<Rightarrow> ('ax3, 'ray) kernel_call list \<Rightarrow> ('ax3, 'ray) outcome" where
  "arc String wasm normal center start angle calls =
     convert_call String wasm (wasm_arc normal center start (degToRad angle)) calls"

definition circle ::
  "('err \<Rightarrow> string) \<Rightarrow> ('err, 'ax3, 'ray) kernel \<Rightarrow> XYZ \<Rightarrow> XYZ \<Rightarrow> real
   \<Rightarrow> ('ax3, 'ray) kernel_call list \<Rightarrow> ('ax3, 'ray) outcome" where
  "circle String wasm normal center radius calls =
     convert_call String wasm (wasm_circle normal center radius) calls"

definition rect ::
  "('plane \<Rightarrow> 'ax3) \<Rightarrow> ('err \<Rightarrow> string) \<Rightarrow> ('err, 'ax3, 'ray) kernel \<Rightarrow> 'plane \<Rightarrow> real
   \<Rightarrow> real \<Rightarrow> ('ax3, 'ray) kernel_call list \<Rightarrow> ('ax3, 'ray) outcome" where
  "rect toAx3 String wasm plane dx dy calls =
     convert_call String wasm (wasm_rect (toAx3 plane) dx dy) calls"

definition polygon ::
  "('err \<Rightarrow> string) \<Rightarrow> ('err, 'ax3, 'ray) kernel \<Rightarrow> XYZ list
   \<Rightarrow> ('ax3, 'ray) kernel_call list \<Rightarrow> ('ax3, 'ray) outcome" where
  "polygon String wasm points calls = convert_call String wasm (wasm_polygon points) calls"

definition box ::
  "('plane \<Rightarrow> 'ax3) \<Rightarrow> ('err \<Rightarrow> string) \<Rightarrow> ('err, 'ax3, 'ray) kernel \<Rightarrow> 'plane \<Rightarrow> real
   \<Rightarrow> real \<Rightarrow> real \<Rightarrow> ('ax3, 'ray) kernel_call list \<Rightarrow> ('ax3, 'ray) outcome" where
  "box toAx3 String wasm plane dx dy dz calls =
     convert_call String wasm (wasm_box (toAx3 plane) dx dy dz) calls"

definition wire ::
  "('err \<Rightarrow> string) \<Rightarrow> ('err, 'ax3, 'ray) kernel \<Rightarrow> IShape list
   \<Rightarrow> ('ax3, 'ray) kernel_call list \<Rightarrow> ('ax3, 'ray) outcome" where
  "wire String wasm edges calls =
     (case ensureOccShape (Array edges) of
        Inl f \<Rightarrow> (Inl f, calls)
      | Inr shapes \<Rightarrow> convert_call String wasm (wasm_wire shapes) calls)"

definition prism ::
  "('err \<Rightarrow> string) \<Rightarrow> ('err, 'ax3, 'ray) kernel \<Rightarrow> IShape \<Rightarrow> XYZ
   \<Rightarrow> ('ax3, 'ray) kernel_call list \<Rightarrow> ('ax3, 'ray) outcome" where
  "prism String wasm shape' vec calls =
     (if XYZ_length vec = 0
      then (Inr (Result_err ''The vector length is 0, the prism cannot be created.''), calls)
      else (case ensureOccShape (Single shape') of
              Inl f \<Rightarrow> (Inl f, calls)
            | Inr hs \<Rightarrow> convert_call String wasm (wasm_prism (index0 hs) vec) calls))"

definition fuse ::
  "('err \<Rightarrow> string) \<Rightarrow> ('err, 'ax3, 'ray) kernel \<Rightarrow> IShape \<Rightarrow> IShape
   \<Rightarrow> ('ax3, 'ray) kernel_call list \<Rightarrow> ('ax3, 'ray) outcome" where
  "fuse String wasm bottom top' calls =
     (case ensureOccShape (Single bottom) of
        Inl f \<Rightarrow> (Inl f, calls)
      | Inr hs1 \<Rightarrow>
          (case ensureOccShape (Single top') of
             Inl f \<Rightarrow> (Inl f, calls)
           | Inr hs2 \<Rightarrow> convert_call String wasm (wasm_booleanFuse hs1 hs2) calls))"

definition sweep ::
  "('err \<Rightarrow> string) \<Rightarrow> ('err, 'ax3, 'ray) kernel \<Rightarrow> IShape \<Rightarrow> IShape
   \<Rightarrow> ('ax3, 'ray) kernel_call list \<Rightarrow> ('ax3, 'ray) outcome" where
  "sweep String wasm profile path calls =
     (case ensureOccShape (Single profile) of
        Inl f \<Rightarrow> (Inl f, calls)
      | Inr hs1 \<Rightarrow>
          (case ensureOccShape (Single path) of
             Inl f \<Rightarrow> (Inl f, calls)
           | Inr hs2 \<Rightarrow> convert_call String wasm (wasm_sweep (index0 hs1) (index0 hs2)) calls))"

definition revolve ::
  "('err \<Rightarrow> string) \<Rightarrow> ('err, 'ax3, 'ray) kernel \<Rightarrow> IShape \<Rightarrow> 'ray \<Rightarrow> real
   \<Rightarrow> ('ax3, 'ray) kernel_call list \<Rightarrow> ('ax3, 'ray) outcome" where
  "revolve String wasm profile axis angle calls =
     (case ensureOccShape (Single profile) of
        Inl f \<Rightarrow> (Inl f, calls)
      | Inr hs \<Rightarrow>
          convert_call String wasm (wasm_revolve (index0 hs) axis (degToRad angle)) calls)"

definition booleanCommon ::
  "('err \<Rightarrow> string) \<Rightarrow> ('err, 'ax3, 'ray) kernel \<Rightarrow> IShape \<Rightarrow> IShape
   \<Rightarrow> ('ax3, 'ray) kernel_call list \<Rightarrow> ('ax3, 'ray) outcome" where
  "booleanCommon String wasm shape1 shape2 calls =
     (case ensureOccShape (Single shape1) of
        Inl f \<Rightarrow> (Inl f, calls)
      | Inr hs1 \<Rightarrow>
          (case ensureOccShape (Single shape2) of
             Inl f \<Rightarrow> (Inl f, calls)
           | Inr hs2 \<Rightarrow> convert_call String wasm (wasm_booleanCommon hs1 hs2) calls))"

definition booleanCut ::
  "('err \<Rightarrow> string) \<Rightarrow> ('err, 'ax3, 'ray) kernel \<Rightarrow> IShape \<Rightarrow> IShape
   \<Rightarrow> ('ax3, 'ray) kernel_call list \<Rightarrow> ('ax3, 'ray) outcome" where
  "booleanCut String wasm shape1 shape2 calls =
     (case ensureOccShape (Single shape1) of
        Inl f \<Rightarrow> (Inl f, calls)
      | Inr hs1 \<Rightarrow>
          (case ensureOccShape (Single shape2) of
             Inl f \<Rightarrow> (Inl f, calls)
           | Inr hs2 \<Rightarrow> convert_call String wasm (wasm_booleanCut hs1 hs2) calls))"

definition booleanFuse ::
  "('err \<Rightarrow> string) \<Rightarrow> ('err, 'ax3, 'ray) kernel \<Rightarrow> IShape \<Rightarrow> IShape
   \<Rightarrow> ('ax3, 'ray) kernel_call list \<Rightarrow> ('ax3, 'ray) outcome" where
  "booleanFuse String wasm shape1 shape2 calls =
     (case ensureOccShape (Single shape1) of
        Inl f \<Rightarrow> (Inl f, calls)
      | Inr hs1 \<Rightarrow>
          (case ensureOccShape (Single shape2) of
             Inl f \<Rightarrow> (Inl f, calls)
           | Inr hs2 \<Rightarrow> convert_call String wasm (wasm_booleanFuse hs1 hs2) calls))"

definition combine ::
  "('err \<Rightarrow> string) \<Rightarrow> ('err, 'ax3, 'ray) kernel \<Rightarrow> IShape list
   \<Rightarrow> ('ax3, 'ray) kernel_call list \<Rightarrow> ('ax3, 'ray) outcome" where
  "combine String wasm shapes calls =
     (case ensureOccShape (Array shapes) of
        Inl f \<Rightarrow> (Inl f, calls)
      | Inr hs \<Rightarrow> convert_call String wasm (wasm_combine hs) calls)"

definition makeThickSolidBySimple ::
  "('err \<Rightarrow> string) \<Rightarrow> ('err, 'ax3, 'ray) kernel \<Rightarrow> IShape \<Rightarrow> real
   \<Rightarrow> ('ax3, 'ray) kernel_call list \<Rightarrow> ('ax3, 'ray) outcome" where
  "makeThickSolidBySimple String wasm shape' thickness calls =
     (case ensureOccShape (Single shape') of
        Inl f \<Rightarrow> (Inl f, calls)
      | Inr hs \<Rightarrow>
          convert_call String wasm (wasm_makeThickSolidBySimple (index0 hs) thickness) calls)"

definition makeThickSolidByJoin ::
  "('err \<Rightarrow> string) \<Rightarrow> ('err, 'ax3, 'ray) kernel \<Rightarrow> IShape \<Rightarrow> IShape list \<Rightarrow> real
   \<Rightarrow> ('ax3, 'ray) kernel_call list \<Rightarrow> ('ax3, 'ray) outcome" where
  "makeThickSolidByJoin String wasm shape' closingFaces thickness calls =
     (case ensureOccShape (Single shape') of
        Inl f \<Rightarrow> (Inl f, calls)
      | Inr hs \<Rightarrow>
          (case ensureOccShape (Array closingFaces) of
             Inl f \<Rightarrow> (Inl f, calls)
           | Inr faces \<Rightarrow>
               convert_call String wasm
                 (wasm_makeThickSolidByJoin (index0 hs) faces thickness) calls))"

text \<open>
  Two kernels to run the factory on: one that fails every call, and one that succeeds and
  numbers its handles by the count of earlier calls.
\<close>

definition failing_kernel :: "(string, unit, unit) kernel" where
  "failing_kernel calls c = \<lparr>isOk = False, shape = TopoDS_Shape 0, error = ''kernel error''\<rparr>"

definition counting_kernel :: "(string, unit, unit) kernel" where
  "counting_kernel calls c = \<lparr>isOk = True, shape = TopoDS_Shape (length calls), error = []\<rparr>"

section \<open>QuaternionConverter\<close>

subsection \<open>JavaScript numbers and strings\<close>

text \<open>
  The result of \<^verbatim>\<open>Number(x)\<close> can be \<^verbatim>\<open>NaN\<close> or an infinity, so the numbers of the
  converter are the reals extended by these three values.
\<close>

datatype number = NaN | PosInfinity | NegInfinity | Finite real

fun isNaN :: "number \<Rightarrow> bool" where
  "isNaN NaN = True"
| "isNaN PosInfinity = False"
| "isNaN NegInfinity = False"
| "isNaN (Finite r) = False"

fun number_negate :: "number \<Rightarrow> number" where
  "number_negate NaN = NaN"
| "number_negate PosInfinity = NegInfinity"
| "number_negate NegInfinity = PosInfinity"
| "number_negate (Finite r) = Finite (- r)"

text \<open>The operator \<^verbatim>\<open>*\<close>: an infinity times zero is \<^verbatim>\<open>NaN\<close>.\<close>

fun number_times :: "number \<Rightarrow> number \<Rightarrow> number" where
  "number_times NaN b = NaN"
| "number_times a NaN = NaN"
| "number_times (Finite a) (Finite b) = Finite (a * b)"
| "number_times (Finite a) PosInfinity =
     (if a = 0 then NaN else if 0 < a then PosInfinity else NegInfinity)"
| "number_times (Finite a) NegInfinity =
     (if a = 0 then NaN else if 0 < a then NegInfinity else PosInfinity)"
| "number_times PosInfinity (Finite b) =
     (if b = 0 then NaN else if 0 < b then PosInfinity else NegInfinity)"
| "number_times NegInfinity (Finite b) =
     (if b = 0 then NaN else if 0 < b then NegInfinity else PosInfinity)"
| "number_times PosInfinity PosInfinity = PosInfinity"
| "number_times PosInfinity NegInfinity = NegInfinity"
| "number_times NegInfinity PosInfinity = NegInfinity"
| "number_times NegInfinity NegInfinity = PosInfinity"

text \<open>
  \<^verbatim>\<open>value.split(",")\<close>: the pieces between the commas, empty pieces included; a string
  without a comma, also the empty string, gives one piece.
\<close>

fun split_comma :: "string \<Rightarrow> string list" where
  "split_comma [] = [[]]"
| "split_comma (c # cs) =
     (if c = CHR '','' then [] # split_comma cs
      else (case split_comma cs of
              [] \<Rightarrow> [[c]]
            | t # ts \<Rightarrow> (c # t) # ts))"

text \<open>
  \<^verbatim>\<open>Number(x)\<close> on a string is the language's StringToNumber: white space is trimmed,
  the empty string is 0, and the rest must be a StringNumericLiteral, else the result is
  \<^verbatim>\<open>NaN\<close>. A character is a code unit below 256; the white space among these is TAB, LF,
  VT, FF, CR, SP and NBSP. The value of a literal is its exact mathematical value.
\<close>

definition isStrWhiteSpaceChar :: "char \<Rightarrow> bool" where
  "isStrWhiteSpaceChar c =
     (let n = (of_char c :: nat)
      in n = 9 \<or> n = 10 \<or> n = 11 \<or> n = 12 \<or> n = 13 \<or> n = 32 \<or> n = 160)"

definition trimString :: "string \<Rightarrow> string" where
  "trimString s =
     rev (dropWhile isStrWhiteSpaceChar (rev (dropWhile isStrWhiteSpaceChar s)))"

text \<open>The value of a digit: \<open>0-9\<close>, \<open>a-f\<close> and \<open>A-F\<close>; \<open>None\<close> for any other character.\<close>

definition digitValue :: "char \<Rightarrow> nat option" where
  "digitValue c =
     (let n = (of_char c :: nat)
      in if 48 \<le> n \<and> n \<le> 57 then Some (n - 48)
         else if 97 \<le> n \<and> n \<le> 102 then Some (n - 87)
         else if 65 \<le> n \<and> n \<le> 70 then Some (n - 55)
         else None)"

definition isDigit :: "nat \<Rightarrow> char \<Rightarrow> bool" where
  "isDigit base c = (case digitValue c of None \<Rightarrow> False | Some d \<Rightarrow> d < base)"

definition digitsValue :: "nat \<Rightarrow> string \<Rightarrow> nat" where
  "digitsValue base ds =
     foldl (\<lambda>n c. base * n + (case digitValue c of None \<Rightarrow> 0 | Some d \<Rightarrow> d)) 0 ds"

text \<open>A non-empty run of digits of the base, and nothing else.\<close>

definition Digits :: "nat \<Rightarrow> string \<Rightarrow> nat option" where
  "Digits base ds =
     (if ds \<noteq> [] \<and> dropWhile (isDigit base) ds = [] then Some (digitsValue base ds)
      else None)"

definition SignedInteger :: "string \<Rightarrow> int option" where
  "SignedInteger s =
     (case s of
        [] \<Rightarrow> None
      | c # ds \<Rightarrow>
          if c = CHR ''+'' then map_option int (Digits 10 ds)
          else if c = CHR ''-'' then map_option (\<lambda>n. - int n) (Digits 10 ds)
          else map_option int (Digits 10 s))"

text \<open>The optional exponent part; \<open>None\<close> when what follows the mantissa is not one.\<close>

definition ExponentPart :: "string \<Rightarrow> int option" where
  "ExponentPart s =
     (case s of
        [] \<Rightarrow> Some 0
      | c # r \<Rightarrow> if c = CHR ''e'' \<or> c = CHR ''E'' then SignedInteger r else None)"

definition StrUnsignedDecimalLiteral :: "string \<Rightarrow> number" where
  "StrUnsignedDecimalLiteral s =
     (if s = ''Infinity'' then PosInfinity
      else
        let ip = takeWhile (isDigit 10) s;
            r1 = dropWhile (isDigit 10) s;
            dot = (case r1 of [] \<Rightarrow> False | c # r \<Rightarrow> c = CHR ''.'');
            fp = (if dot then takeWhile (isDigit 10) (tl r1) else []);
            r2 = (if dot then dropWhile (isDigit 10) (tl r1) else r1)
        in if ip = [] \<and> fp = [] then NaN
           else (case ExponentPart r2 of
                   None \<Rightarrow> NaN
                 | Some e \<Rightarrow>
                     Finite ((real (digitsValue 10 ip)
                               + real (digitsValue 10 fp) / 10 ^ length fp)
                             * (if 0 \<le> e then 10 ^ nat e else 1 / 10 ^ nat (- e)))))"

definition StrDecimalLiteral :: "string \<Rightarrow> number" where
  "StrDecimalLiteral s =
     (case s of
        [] \<Rightarrow> NaN
      | c # r \<Rightarrow>
          if c = CHR ''+'' then StrUnsignedDecimalLiteral r
          else if c = CHR ''-'' then number_negate (StrUnsignedDecimalLiteral r)
          else StrUnsignedDecimalLiteral s)"

definition NonDecimalIntegerLiteral :: "nat \<Rightarrow> string \<Rightarrow> number" where
  "NonDecimalIntegerLiteral base ds =
     (case Digits base ds of None \<Rightarrow> NaN | Some n \<Rightarrow> Finite (real n))"

definition Number :: "string \<Rightarrow> number" where
  "Number x =
     (let s = trimString x
      in if s = [] then Finite 0
         else if take 2 s = ''0x'' \<or> take 2 s = ''0X''
           then NonDecimalIntegerLiteral 16 (drop 2 s)
         else if take 2 s = ''0o'' \<or> take 2 s = ''0O''
           then NonDecimalIntegerLiteral 8 (drop 2 s)
         else if take 2 s = ''0b'' \<or> take 2 s = ''0B''
           then NonDecimalIntegerLiteral 2 (drop 2 s)
         else StrDecimalLiteral s)"

subsection \<open>convertBack\<close>

text \<open>
  \<^verbatim>\<open>Quaternion.fromEuler\<close> belongs to chili-core and is not among the sources: it is the
  parameter \<open>fromEuler\<close>, and the type of quaternions is a type parameter.
\<close>

definition convertBack ::
  "(number \<Rightarrow> number \<Rightarrow> number \<Rightarrow> 'quaternion) \<Rightarrow> string \<Rightarrow> ('quaternion, string) Result" where
  "convertBack fromEuler value' =
     (let vs = filter (\<lambda>x. \<not> isNaN x) (map (\<lambda>x. Number x) (split_comma value'))
      in if length vs \<noteq> 3 then Result_err (value' @ '' convert to Quaternion error'')
         else
           let s = Finite (pi / 180)
           in Result_ok (fromEuler (number_times (vs ! 0) s) (number_times (vs ! 1) s)
                (number_times (vs ! 2) s)))"

section \<open>Properties\<close>

subsection \<open>Auxiliary facts\<close>

lemma map_shape_or_throw_foreign:
  "s \<in> set xs \<Longrightarrow> \<not> instanceof_OccShape s \<Longrightarrow>
   map_shape_or_throw xs = Inl (Error ''The OCC kernel only supports OCC geometries.'')"
  by (induction xs) (auto split: sum.splits)

lemma ensureOccShape_Single_cases:
  "ensureOccShape (Single t) = Inl (Error ''The OCC kernel only supports OCC geometries.'')
   \<or> (\<exists>h. ensureOccShape (Single t) = Inr [h])"
  by (cases t) simp_all

lemma sum_three_squares_zero:
  fixes a b c :: real
  shows "a * a + b * b + c * c = 0 \<longleftrightarrow> a = 0 \<and> b = 0 \<and> c = 0"
proof
  assume h: "a * a + b * b + c * c = 0"
  have "0 \<le> a * a" "0 \<le> b * b" "0 \<le> c * c" by simp_all
  with h have "a * a = 0" "b * b = 0" "c * c = 0" by linarith+
  then show "a = 0 \<and> b = 0 \<and> c = 0" by simp
qed simp

lemma XYZ_length_zero_iff:
  "XYZ_length v = 0 \<longleftrightarrow> XYZ_x v = 0 \<and> XYZ_y v = 0 \<and> XYZ_z v = 0"
  unfolding XYZ_length_def real_sqrt_eq_zero_cancel_iff by (rule sum_three_squares_zero)






text \<open>The definitions that evaluate \<^verbatim>\<open>Number\<close> on a concrete string.\<close>

lemmas Number_eval = Number_def trimString_def isStrWhiteSpaceChar_def StrDecimalLiteral_def
  StrUnsignedDecimalLiteral_def isDigit_def digitValue_def digitsValue_def ExponentPart_def

lemma Number_tokens:
  "Number ''1'' = Finite 1" "Number ''2'' = Finite 2" "Number ''3'' = Finite 3"
  "Number ''4'' = Finite 4" "Number ''a'' = NaN" "Number ''b'' = NaN" "Number ''not'' = NaN"
  by (simp_all add: Number_eval)

subsection \<open>Result and convertShapeResult\<close>

text \<open>
  C6. For every value \<open>v\<close>, \<^verbatim>\<open>Result.ok(v)\<close> reports \<^verbatim>\<open>isOk\<close> as true and stores exactly
  \<open>v\<close>, also for the falsy values \<^verbatim>\<open>false\<close> and \<^verbatim>\<open>undefined\<close>; for every error \<open>e\<close>,
  \<^verbatim>\<open>Result.err(e)\<close> reports \<^verbatim>\<open>isOk\<close> as false and stores exactly \<open>e\<close>.
\<close>

theorem Result_ok_err_store:
  "Result_isOk (Result_ok v) = True \<and> Result_value (Result_ok v) = Some v
   \<and> Result_isOk (Result_ok (js_boolean False)) = True
   \<and> Result_value (Result_ok (js_boolean False)) = Some (js_boolean False)
   \<and> Result_isOk (Result_ok js_undefined) = True
   \<and> Result_value (Result_ok js_undefined) = Some js_undefined
   \<and> Result_isOk (Result_err e) = False \<and> Result_error (Result_err e) = Some e"
  by (simp add: Result_ok_def Result_err_def)

text \<open>
  C4. For every native outcome: when its \<^verbatim>\<open>isOk\<close> flag is false, \<^verbatim>\<open>convertShapeResult\<close>
  returns \<^verbatim>\<open>Result.err\<close> carrying the kernel error converted to a string, so the error
  is not dropped; when the flag is true it returns \<^verbatim>\<open>Result.ok\<close> of a wrapper around the
  native handle.
\<close>

theorem convertShapeResult_normalizes:
  "convertShapeResult String \<lparr>isOk = False, shape = h, error = e\<rparr> = Result_err (String e)
   \<and> Result_isOk (convertShapeResult String \<lparr>isOk = False, shape = h, error = e\<rparr>) = False
   \<and> Result_error (convertShapeResult String \<lparr>isOk = False, shape = h, error = e\<rparr>)
       = Some (String e)
   \<and> convertShapeResult String \<lparr>isOk = True, shape = h, error = e\<rparr> = Result_ok (wrapShape h)
   \<and> Result_value (convertShapeResult String \<lparr>isOk = True, shape = h, error = e\<rparr>)
       = Some (OccShape h)
   \<and> OccShape_shape (wrapShape h) = h"
  by (simp add: convertShapeResult_def wrapShape_def Result_err_def Result_ok_def)

subsection \<open>Foreign shapes\<close>

text \<open>
  C1, as the factory implements it. Let \<open>s\<close> be a shape that is not an \<^verbatim>\<open>OccShape\<close>,
  \<open>xs\<close> an array that contains it and \<open>t\<close> any shape. Every factory operation that takes
  shapes throws the error of \<^verbatim>\<open>ensureOccShape\<close> when it is given \<open>s\<close>, in any shape
  position, and does not call the kernel; for \<^verbatim>\<open>prism\<close> this holds when the length of
  the extrusion vector is not 0.
\<close>

theorem foreign_shape_faults:
  "\<not> instanceof_OccShape s \<Longrightarrow> s \<in> set xs \<Longrightarrow>
     face String wasm xs calls
       = (Inl (Error ''The OCC kernel only supports OCC geometries.''), calls)
   \<and> wire String wasm xs calls
       = (Inl (Error ''The OCC kernel only supports OCC geometries.''), calls)
   \<and> combine String wasm xs calls
       = (Inl (Error ''The OCC kernel only supports OCC geometries.''), calls)
   \<and> (XYZ_length vec \<noteq> 0 \<longrightarrow> prism String wasm s vec calls
       = (Inl (Error ''The OCC kernel only supports OCC geometries.''), calls))
   \<and> fuse String wasm s t calls
       = (Inl (Error ''The OCC kernel only supports OCC geometries.''), calls)
   \<and> fuse String wasm t s calls
       = (Inl (Error ''The OCC kernel only supports OCC geometries.''), calls)
   \<and> sweep String wasm s t calls
       = (Inl (Error ''The OCC kernel only supports OCC geometries.''), calls)
   \<and> sweep String wasm t s calls
       = (Inl (Error ''The OCC kernel only supports OCC geometries.''), calls)
   \<and> revolve String wasm s axis angle calls
       = (Inl (Error ''The OCC kernel only supports OCC geometries.''), calls)
   \<and> booleanCommon String wasm s t calls
       = (Inl (Error ''The OCC kernel only supports OCC geometries.''), calls)
   \<and> booleanCommon String wasm t s calls
       = (Inl (Error ''The OCC kernel only supports OCC geometries.''), calls)
   \<and> booleanCut String wasm s t calls
       = (Inl (Error ''The OCC kernel only supports OCC geometries.''), calls)
   \<and> booleanCut String wasm t s calls
       = (Inl (Error ''The OCC kernel only supports OCC geometries.''), calls)
   \<and> booleanFuse String wasm s t calls
       = (Inl (Error ''The OCC kernel only supports OCC geometries.''), calls)
   \<and> booleanFuse String wasm t s calls
       = (Inl (Error ''The OCC kernel only supports OCC geometries.''), calls)
   \<and> makeThickSolidBySimple String wasm s thickness calls
       = (Inl (Error ''The OCC kernel only supports OCC geometries.''), calls)
   \<and> makeThickSolidByJoin String wasm s ys thickness calls
       = (Inl (Error ''The OCC kernel only supports OCC geometries.''), calls)
   \<and> makeThickSolidByJoin String wasm t xs thickness calls
       = (Inl (Error ''The OCC kernel only supports OCC geometries.''), calls)"
  using ensureOccShape_Single_cases[of t]
  by (auto simp add: face_def wire_def combine_def prism_def fuse_def sweep_def revolve_def
      booleanCommon_def booleanCut_def booleanFuse_def makeThickSolidBySimple_def
      makeThickSolidByJoin_def map_shape_or_throw_foreign)

theorem foreign_shape_faults_witness:
  "\<not> instanceof_OccShape (ForeignShape 0)
   \<and> ForeignShape 0 \<in> set [OccShape (TopoDS_Shape 1), ForeignShape 0]
   \<and> XYZ_length \<lparr>XYZ_x = 1, XYZ_y = 0, XYZ_z = 0\<rparr> \<noteq> 0
   \<and> face id failing_kernel [OccShape (TopoDS_Shape 1), ForeignShape 0] []
       = (Inl (Error ''The OCC kernel only supports OCC geometries.''), [])
   \<and> prism id failing_kernel (ForeignShape 0) \<lparr>XYZ_x = 1, XYZ_y = 0, XYZ_z = 0\<rparr> []
       = (Inl (Error ''The OCC kernel only supports OCC geometries.''), [])
   \<and> fuse id failing_kernel (OccShape (TopoDS_Shape 2)) (ForeignShape 0) []
       = (Inl (Error ''The OCC kernel only supports OCC geometries.''), [])
   \<and> makeThickSolidByJoin id failing_kernel (OccShape (TopoDS_Shape 2))
         [OccShape (TopoDS_Shape 1), ForeignShape 0] 1 []
       = (Inl (Error ''The OCC kernel only supports OCC geometries.''), [])"
  using foreign_shape_faults [where s = "ForeignShape 0"
      and xs = "[OccShape (TopoDS_Shape 1), ForeignShape 0]"
      and vec = "\<lparr>XYZ_x = 1, XYZ_y = 0, XYZ_z = 0\<rparr>" and String = id
      and wasm = failing_kernel and calls = "[]" and t = "OccShape (TopoDS_Shape 2)"
      and thickness = 1]
  by (simp add: XYZ_length_def)

text \<open>
  C1 as stated fails for \<^verbatim>\<open>prism\<close>: with a vector of length 0 the operation returns
  \<^verbatim>\<open>Result.err\<close> for a shape that is not an \<^verbatim>\<open>OccShape\<close>, and throws nothing.
\<close>

theorem foreign_shape_prism_counterexample:
  "\<not> instanceof_OccShape (ForeignShape 0)
   \<and> prism id failing_kernel (ForeignShape 0) \<lparr>XYZ_x = 0, XYZ_y = 0, XYZ_z = 0\<rparr> []
       = (Inr (Result_err ''The vector length is 0, the prism cannot be created.''), [])"
  by (simp add: prism_def XYZ_length_def)

text \<open>
  C10. \<^verbatim>\<open>prism\<close> checks the extrusion vector before it unwraps the shape: for every
  shape \<open>s\<close>, also one that is not an \<^verbatim>\<open>OccShape\<close>, and every vector whose length is 0,
  \<^verbatim>\<open>prism(s, v)\<close> returns \<^verbatim>\<open>Result.err\<close>, throws nothing and does not call the kernel.
\<close>

theorem prism_validates_before_unwrap:
  "XYZ_length vec = 0 \<Longrightarrow>
     prism String wasm s vec calls
       = (Inr (Result_err ''The vector length is 0, the prism cannot be created.''), calls)
   \<and> \<not> isl (fst (prism String wasm s vec calls))
   \<and> prism String wasm (ForeignShape n) vec calls
       = (Inr (Result_err ''The vector length is 0, the prism cannot be created.''), calls)"
  by (simp add: prism_def)

theorem prism_validates_before_unwrap_witness:
  "XYZ_length \<lparr>XYZ_x = 0, XYZ_y = 0, XYZ_z = 0\<rparr> = 0
   \<and> prism id counting_kernel (ForeignShape 7) \<lparr>XYZ_x = 0, XYZ_y = 0, XYZ_z = 0\<rparr> []
       = (Inr (Result_err ''The vector length is 0, the prism cannot be created.''), [])"
  using prism_validates_before_unwrap [where vec = "\<lparr>XYZ_x = 0, XYZ_y = 0, XYZ_z = 0\<rparr>"
      and String = id and wasm = counting_kernel and s = "ForeignShape 7" and calls = "[]"]
  by (simp add: XYZ_length_def)

subsection \<open>Preconditions of line and prism\<close>




text \<open>
  C3, as the factory implements it. \<^verbatim>\<open>prism(shape, v)\<close> returns \<^verbatim>\<open>Result.err\<close> without a
  kernel call when the length of \<open>v\<close> is exactly 0, for every shape; this is the case
  when all three components of \<open>v\<close> are exactly 0. For a vector whose length is not 0 and
  a shape that is an \<^verbatim>\<open>OccShape\<close>, it calls the kernel once, with the native handle and
  the vector.
\<close>

theorem prism_validation:
  "(XYZ_x vec = 0 \<and> XYZ_y vec = 0 \<and> XYZ_z vec = 0 \<longrightarrow>
      prism String wasm s vec calls
        = (Inr (Result_err ''The vector length is 0, the prism cannot be created.''), calls))
   \<and> (XYZ_length u = 0 \<longrightarrow>
      prism String wasm s u calls
        = (Inr (Result_err ''The vector length is 0, the prism cannot be created.''), calls))
   \<and> (XYZ_length v \<noteq> 0 \<longrightarrow>
      prism String wasm (OccShape h) v calls
        = convert_call String wasm (wasm_prism (Some h) v) calls
      \<and> snd (prism String wasm (OccShape h) v calls) = calls @ [wasm_prism (Some h) v])"
  by (auto simp add: prism_def XYZ_length_zero_iff convert_call_def)

theorem prism_validation_witness:
  "XYZ_x \<lparr>XYZ_x = 0, XYZ_y = 0, XYZ_z = 0\<rparr> = 0
   \<and> XYZ_length \<lparr>XYZ_x = 0, XYZ_y = 0, XYZ_z = 0\<rparr> = 0
   \<and> prism id counting_kernel (OccShape (TopoDS_Shape 4)) \<lparr>XYZ_x = 0, XYZ_y = 0, XYZ_z = 0\<rparr> []
       = (Inr (Result_err ''The vector length is 0, the prism cannot be created.''), [])
   \<and> XYZ_length \<lparr>XYZ_x = 0, XYZ_y = 0, XYZ_z = 10\<rparr> \<noteq> 0
   \<and> prism id counting_kernel (OccShape (TopoDS_Shape 4)) \<lparr>XYZ_x = 0, XYZ_y = 0, XYZ_z = 10\<rparr> []
       = (Inr (Result_ok (OccShape (TopoDS_Shape 0))),
          [wasm_prism (Some (TopoDS_Shape 4)) \<lparr>XYZ_x = 0, XYZ_y = 0, XYZ_z = 10\<rparr>])"
  using prism_validation [where vec = "\<lparr>XYZ_x = 0, XYZ_y = 0, XYZ_z = 0\<rparr>"
      and u = "\<lparr>XYZ_x = 0, XYZ_y = 0, XYZ_z = 0\<rparr>" and String = id
      and wasm = counting_kernel and s = "OccShape (TopoDS_Shape 4)" and calls = "[]"
      and v = "\<lparr>XYZ_x = 0, XYZ_y = 0, XYZ_z = 10\<rparr>" and h = "TopoDS_Shape 4"]
  by (simp add: XYZ_length_def convert_call_def convertShapeResult_def counting_kernel_def
      wrapShape_def)

text \<open>
  C3 as stated fails: a vector whose components are all within epsilon of zero, but not
  all zero, is not rejected. Here epsilon is \<^verbatim>\<open>1e-7\<close> and the vector is
  \<^verbatim>\<open>(5e-8, 0, 0)\<close>: the kernel is called and its shape returned.
\<close>

theorem prism_epsilon_counterexample:
  "allEqualZero (1 / 10 ^ 7) (XYZ_x \<lparr>XYZ_x = 5 / 10 ^ 8, XYZ_y = 0, XYZ_z = 0\<rparr>)
      (XYZ_y \<lparr>XYZ_x = 5 / 10 ^ 8, XYZ_y = 0, XYZ_z = 0\<rparr>)
      (XYZ_z \<lparr>XYZ_x = 5 / 10 ^ 8, XYZ_y = 0, XYZ_z = 0\<rparr>)
   \<and> prism id counting_kernel (OccShape (TopoDS_Shape 4))
        \<lparr>XYZ_x = 5 / 10 ^ 8, XYZ_y = 0, XYZ_z = 0\<rparr> []
       = (Inr (Result_ok (OccShape (TopoDS_Shape 0))),
          [wasm_prism (Some (TopoDS_Shape 4)) \<lparr>XYZ_x = 5 / 10 ^ 8, XYZ_y = 0, XYZ_z = 0\<rparr>])"
  by (simp add: allEqualZero_def prism_def XYZ_length_def convert_call_def
      convertShapeResult_def counting_kernel_def wrapShape_def)

subsection \<open>Angles and the fuse operations\<close>

text \<open>
  C5. For every degree input \<open>d\<close>, \<^verbatim>\<open>arc\<close> and \<^verbatim>\<open>revolve\<close> pass the angle to the kernel
  as \<open>d * \<pi> / 180\<close>: the call they log carries the converted angle.
\<close>

theorem degrees_to_radians_at_kernel:
  "arc String wasm normal center start d calls
       = convert_call String wasm (wasm_arc normal center start (d * pi / 180)) calls
   \<and> snd (arc String wasm normal center start d calls)
       = calls @ [wasm_arc normal center start (d * pi / 180)]
   \<and> revolve String wasm (OccShape h) axis d calls
       = convert_call String wasm (wasm_revolve (Some h) axis (d * pi / 180)) calls
   \<and> snd (revolve String wasm (OccShape h) axis d calls)
       = calls @ [wasm_revolve (Some h) axis (d * pi / 180)]"
  by (simp add: arc_def revolve_def degToRad_def convert_call_def)

text \<open>
  C7. For every pair of shapes \<open>a\<close> and \<open>b\<close>, \<^verbatim>\<open>fuse(a, b)\<close> and \<^verbatim>\<open>booleanFuse(a, b)\<close>
  are the same operation: equal outcomes and equal kernel calls, and for two
  \<^verbatim>\<open>OccShape\<close>s both make the one call \<^verbatim>\<open>booleanFuse\<close> with the handle of \<open>a\<close> first and
  the handle of \<open>b\<close> second.
\<close>

theorem fuse_booleanFuse_alias:
  "fuse String wasm a b calls = booleanFuse String wasm a b calls
   \<and> fuse String wasm (OccShape ha) (OccShape hb) calls
       = convert_call String wasm (wasm_booleanFuse [ha] [hb]) calls
   \<and> booleanFuse String wasm (OccShape ha) (OccShape hb) calls
       = convert_call String wasm (wasm_booleanFuse [ha] [hb]) calls
   \<and> snd (fuse String wasm (OccShape ha) (OccShape hb) calls)
       = calls @ [wasm_booleanFuse [ha] [hb]]
   \<and> snd (booleanFuse String wasm (OccShape ha) (OccShape hb) calls)
       = calls @ [wasm_booleanFuse [ha] [hb]]"
  by (simp add: fuse_def booleanFuse_def convert_call_def)

subsection \<open>convertBack\<close>

text \<open>
  C9. \<^verbatim>\<open>convertBack\<close> succeeds if and only if exactly 3 of the comma-separated pieces
  of the input parse as numbers: \<^verbatim>\<open>"1,2,3,4"\<close>, with 4 numbers, is an error;
  \<^verbatim>\<open>"1,a,2,3"\<close>, with 3 numbers and one other piece, succeeds, the three numbers being
  scaled by \<open>\<pi> / 180\<close>; \<^verbatim>\<open>"not,a,b"\<close>, with no number, is an error.
\<close>

theorem convertBack_succeeds_iff:
  "Result_isOk (convertBack fromEuler v)
     = (length (filter (\<lambda>x. \<not> isNaN x) (map Number (split_comma v))) = 3)
   \<and> convertBack fromEuler ''1,2,3,4'' = Result_err ''1,2,3,4 convert to Quaternion error''
   \<and> convertBack fromEuler ''1,a,2,3''
       = Result_ok (fromEuler (Finite (1 * (pi / 180))) (Finite (2 * (pi / 180)))
           (Finite (3 * (pi / 180))))
   \<and> convertBack fromEuler ''not,a,b'' = Result_err ''not,a,b convert to Quaternion error''"
  by (simp add: convertBack_def Let_def Result_ok_def Result_err_def Number_tokens)

end
